theory Spec2Isabelle
  imports Complex_Main
begin

section \<open>The store (database.py)\<close>

text \<open>
  A point in time (a timezone-aware \<^verbatim>\<open>datetime\<close> in UTC) is the number of
  microseconds since the epoch. The ISO-8601 strings that the cooldowns table holds are
  produced by \<^verbatim>\<open>isoformat()\<close> from such values and read back by
  \<^verbatim>\<open>fromisoformat\<close>; the table is modelled with the instants themselves.
\<close>

type_synonym datetime = int

definition minutes :: "int \<Rightarrow> int" where
  "minutes n = n * 60000000"

definition days :: "int \<Rightarrow> int" where
  "days n = n * 86400000000"

text \<open>The rows of table \<^verbatim>\<open>messages\<close>.\<close>

record message_row =
  week :: datetime
  message_timestamp :: string
  message :: string
  sequence_position :: int
  channel_id :: nat

text \<open>
  The database: table \<^verbatim>\<open>channels\<close> as its rows \<open>(id, slack_channel_id)\<close> in
  insertion order together with the AUTOINCREMENT counter, table \<^verbatim>\<open>messages\<close> as
  its rows in insertion order, and table \<^verbatim>\<open>cooldowns\<close>, which is
  \<^verbatim>\<open>UNIQUE(accessor, resource)\<close>, as a map from that pair to \<^verbatim>\<open>expires_at\<close>.
\<close>

record db =
  channels :: "(nat \<times> string) list"
  next_channel_id :: nat
  messages :: "message_row list"
  cooldowns :: "string \<times> string \<rightharpoonup> datetime"

datatype error = IntegrityError | TypeError | KeyError | SlackApiError | ProgrammingError

text \<open>
  \<^verbatim>\<open>create_cooldown\<close>: the upsert
  \<^verbatim>\<open>INSERT ... ON CONFLICT(accessor,resource) DO UPDATE SET ... expires_at=excluded.expires_at\<close>
  with \<^verbatim>\<open>expires_at = now + timedelta(minutes=cooldown_minutes)\<close>. The clock reading
  \<open>now\<close> is an argument.
\<close>

definition create_cooldown :: "datetime \<Rightarrow> string \<Rightarrow> string \<Rightarrow> int \<Rightarrow> db \<Rightarrow> db" where
  "create_cooldown now acc res cooldown_minutes d =
     d\<lparr>cooldowns := (cooldowns d)((acc, res) \<mapsto> now + minutes cooldown_minutes)\<rparr>"

definition get_cooldown_expiry_time :: "db \<Rightarrow> string \<Rightarrow> string \<Rightarrow> datetime option" where
  "get_cooldown_expiry_time d acc res = cooldowns d (acc, res)"

text \<open>
  \<^verbatim>\<open>add_channel\<close> of database.py: \<^verbatim>\<open>INSERT INTO channels (slack_channel_id) VALUES (?)\<close>.
  The column is \<^verbatim>\<open>UNIQUE\<close>, so inserting an identifier that is already there raises
  \<^verbatim>\<open>sqlite3.IntegrityError\<close>.
\<close>

definition database_add_channel :: "string \<Rightarrow> db \<Rightarrow> error + db" where
  "database_add_channel sid d =
     (if sid \<in> set (map snd (channels d)) then Inl IntegrityError
      else Inr (d\<lparr>channels := channels d @ [(next_channel_id d, sid)],
                  next_channel_id := next_channel_id d + 1\<rparr>))"

text \<open>
  \<^verbatim>\<open>remove_channel\<close> of database.py:
  \<^verbatim>\<open>DELETE FROM channels WHERE slack_channel_id = ?\<close>. A \<^verbatim>\<open>DELETE\<close> that matches no row
  deletes nothing and raises nothing. The messages of a deleted channel go with it
  (\<^verbatim>\<open>ON DELETE CASCADE\<close>) when the connection enforces foreign keys, which is the
  argument \<open>foreign_keys\<close>.
\<close>

definition database_remove_channel :: "bool \<Rightarrow> string \<Rightarrow> db \<Rightarrow> error + db" where
  "database_remove_channel foreign_keys sid d =
     Inr (d\<lparr>channels := filter (\<lambda>c. snd c \<noteq> sid) (channels d),
            messages :=
              (if foreign_keys
               then filter (\<lambda>m. channel_id m \<notin> set (map fst (filter (\<lambda>c. snd c = sid) (channels d))))
                      (messages d)
               else messages d)\<rparr>)"

text \<open>\<^verbatim>\<open>get_slack_channel_ids\<close>: \<^verbatim>\<open>SELECT slack_channel_id FROM channels\<close>.\<close>

definition get_slack_channel_ids :: "db \<Rightarrow> string list" where
  "get_slack_channel_ids d = map snd (channels d)"

text \<open>
  \<^verbatim>\<open>SELECT id FROM channels WHERE slack_channel_id = ?\<close> followed by \<^verbatim>\<open>fetchone()\<close>:
  the first matching row, if any.
\<close>

definition select_channel_id :: "db \<Rightarrow> string \<Rightarrow> nat option" where
  "select_channel_id d sid =
     (case filter (\<lambda>c. snd c = sid) (channels d) of [] \<Rightarrow> None | c # _ \<Rightarrow> Some (fst c))"

text \<open>
  \<^verbatim>\<open>create_message\<close>: the channel's row id is \<^verbatim>\<open>cur.fetchone()[0]\<close>, which raises
  \<^verbatim>\<open>TypeError\<close> when there is no such channel; then the row is inserted.
\<close>

definition create_message :: "datetime \<Rightarrow> string \<Rightarrow> string \<Rightarrow> string \<Rightarrow> int \<Rightarrow> db \<Rightarrow> error + db" where
  "create_message w msg ts sid seq d =
     (case select_channel_id d sid of
        None \<Rightarrow> Inl TypeError
      | Some cid \<Rightarrow>
          Inr (d\<lparr>messages := messages d @
                 [\<lparr>week = w, message_timestamp = ts, message = msg,
                   sequence_position = seq, channel_id = cid\<rparr>]\<rparr>))"

text \<open>
  \<^verbatim>\<open>update_message\<close>:
  \<^verbatim>\<open>UPDATE messages SET message = ? WHERE week = ? AND message_timestamp = ? AND channel_id = ?\<close>.
\<close>

definition update_message :: "datetime \<Rightarrow> string \<Rightarrow> string \<Rightarrow> string \<Rightarrow> db \<Rightarrow> error + db" where
  "update_message w msg ts sid d =
     (case select_channel_id d sid of
        None \<Rightarrow> Inl TypeError
      | Some cid \<Rightarrow>
          Inr (d\<lparr>messages :=
                 map (\<lambda>m. if week m = w \<and> message_timestamp m = ts \<and> channel_id m = cid
                          then m\<lparr>message := msg\<rparr> else m)
                   (messages d)\<rparr>))"

text \<open>The dictionaries that \<^verbatim>\<open>get_messages\<close> returns.\<close>

record message_dict =
  d_message :: string
  d_message_timestamp :: string
  d_slack_channel_id :: string
  d_sequence_position :: int

text \<open>
  \<^verbatim>\<open>get_messages\<close>: the join of the week's messages with their channels
  (\<^verbatim>\<open>FROM messages m JOIN channels c ON m.channel_id = c.id WHERE m.week = ?\<close>),
  then \<^verbatim>\<open>ORDER BY m.sequence_position ASC\<close>. Rows with equal positions stay in table
  order.
\<close>

definition join_messages_channels :: "db \<Rightarrow> datetime \<Rightarrow> message_dict list" where
  "join_messages_channels d w =
     concat (map (\<lambda>m. map (\<lambda>c. \<lparr>d_message = message m,
                                   d_message_timestamp = message_timestamp m,
                                   d_slack_channel_id = snd c,
                                   d_sequence_position = sequence_position m\<rparr>)
                            (filter (\<lambda>c. channel_id m = fst c) (channels d)))
                 (filter (\<lambda>m. week m = w) (messages d)))"

definition get_messages :: "db \<Rightarrow> datetime \<Rightarrow> message_dict list" where
  "get_messages d w = sort_key d_sequence_position (join_messages_channels d w)"

text \<open>
  \<^verbatim>\<open>delete_old_messages\<close>. \<open>cast_decimal\<close> is SQLite's
  \<^verbatim>\<open>cast(message_timestamp as decimal)\<close>, \<open>timestamp\<close> is \<^verbatim>\<open>datetime.timestamp()\<close> in
  seconds (taken as an exact number), and the clock is read once for each of the two
  statements. The second statement compares the ISO-8601 strings of
  \<^verbatim>\<open>expires_at\<close>, which are ordered as the instants they denote.
\<close>

definition timestamp :: "datetime \<Rightarrow> rat" where
  "timestamp t = of_int t / 1000000"

definition delete_old_messages :: "(string \<Rightarrow> rat) \<Rightarrow> datetime \<Rightarrow> datetime \<Rightarrow> int \<Rightarrow> db \<Rightarrow> db" where
  "delete_old_messages cast_decimal now1 now2 days_back d =
     d\<lparr>messages :=
         filter (\<lambda>m. \<not> cast_decimal (message_timestamp m) < timestamp (now1 - days days_back))
           (messages d),
       cooldowns :=
         (\<lambda>k. case cooldowns d k of
                None \<Rightarrow> None
              | Some e \<Rightarrow> if e < now2 - days days_back then None else Some e)\<rparr>"

text \<open>
  The value of a numeral \<^verbatim>\<open>digits.digits\<close>, the form of the timestamps that Slack returns,
  for use as \<open>cast_decimal\<close>.
\<close>

definition nat_of_digits :: "string \<Rightarrow> nat" where
  "nat_of_digits s = foldl (\<lambda>n c. 10 * n + (of_char c - 48)) 0 s"

definition decimal_value :: "string \<Rightarrow> rat" where
  "decimal_value s =
     (let frac = drop 1 (dropWhile (\<lambda>c. c \<noteq> CHR ''.'') s)
      in of_nat (nat_of_digits (takeWhile (\<lambda>c. c \<noteq> CHR ''.'') s)) +
         of_nat (nat_of_digits frac) / 10 ^ length frac)"

section \<open>The rate limit of /check_api (server.py)\<close>

text \<open>\<^verbatim>\<open>needle in haystack\<close> on strings.\<close>

fun str_contains :: "string \<Rightarrow> string \<Rightarrow> bool" where
  "str_contains needle [] = (needle = [])"
| "str_contains needle (c # cs) =
     (take (length needle) (c # cs) = needle \<or> str_contains needle cs)"

text \<open>
  The group of the regular expression \<^verbatim>\<open>(.+?(?=&))\<close> matched at the head of a string:
  the shortest non-empty run of characters other than a newline that is followed by
  \<^verbatim>\<open>&\<close>.
\<close>

fun lazy_until_amp :: "string \<Rightarrow> string option" where
  "lazy_until_amp [] = None"
| "lazy_until_amp (c # cs) =
     (if c = CHR 0x0A then None
      else (case cs of
              [] \<Rightarrow> None
            | d # _ \<Rightarrow> if d = CHR ''&'' then Some [c]
                       else map_option ((#) c) (lazy_until_amp cs)))"

text \<open>
  \<^verbatim>\<open>identify_slack_team_domain\<close>:
  \<^verbatim>\<open>re.search(r"team_domain=(.+?(?=&))", decoded_payload)\<close>, the leftmost position where
  the pattern matches; \<open>None\<close> when there is none. The payload is taken as already decoded.
\<close>

fun identify_slack_team_domain :: "string \<Rightarrow> string option" where
  "identify_slack_team_domain [] = None"
| "identify_slack_team_domain (c # cs) =
     (if take 12 (c # cs) = ''team_domain='' then
        (case lazy_until_amp (drop 12 (c # cs)) of
           Some g \<Rightarrow> Some g
         | None \<Rightarrow> identify_slack_team_domain cs)
      else identify_slack_team_domain cs)"

definition check_api_being_requested :: "string \<Rightarrow> string \<Rightarrow> bool" where
  "check_api_being_requested path payload =
     (path = ''/slack/events'' \<and> str_contains ''command=%2Fcheck_api'' payload)"

definition check_api_on_cooldown :: "datetime \<Rightarrow> db \<Rightarrow> string option \<Rightarrow> bool" where
  "check_api_on_cooldown now d team_domain =
     (case team_domain of
        None \<Rightarrow> True
      | Some td \<Rightarrow>
          (case get_cooldown_expiry_time d td ''check_api'' of
             None \<Rightarrow> False
           | Some expiry \<Rightarrow> if now > expiry then False else True))"

definition update_check_api_cooldown :: "datetime \<Rightarrow> db \<Rightarrow> string option \<Rightarrow> db" where
  "update_check_api_cooldown now d team_domain =
     (case team_domain of
        None \<Rightarrow> d
      | Some td \<Rightarrow> create_cooldown now td ''check_api'' 15 d)"

text \<open>
  What the middleware answers: the plain-text response it returns itself, or the result
  of \<^verbatim>\<open>call_next(req)\<close>, which hands the request on to the Slack handler and so to
  the pipeline.
\<close>

datatype response = PlainTextResponse string | CallNext

definition throttle_message :: string where
  "throttle_message =
     ''This command has been run recently and is on a cooldown period. '' @
     ''Please try again in a little while!''"

text \<open>
  \<^verbatim>\<open>rate_limit_check_api\<close>. The clock is read twice, by \<^verbatim>\<open>check_api_on_cooldown\<close>
  (\<open>now_check\<close>) and by \<^verbatim>\<open>create_cooldown\<close> (\<open>now_create\<close>).
\<close>

definition rate_limit_check_api ::
  "datetime \<Rightarrow> datetime \<Rightarrow> string \<Rightarrow> string \<Rightarrow> db \<Rightarrow> response \<times> db" where
  "rate_limit_check_api now_check now_create path req_body d =
     (if check_api_being_requested path req_body then
        (let team_domain = identify_slack_team_domain req_body in
         if check_api_on_cooldown now_check d team_domain
         then (PlainTextResponse throttle_message, d)
         else (CallNext, update_check_api_cooldown now_create d team_domain))
      else (CallNext, d))"

text \<open>A sequence of requests \<open>(now_check, now_create, path, body)\<close> served one after the other.\<close>

fun serve_all :: "(datetime \<times> datetime \<times> string \<times> string) list \<Rightarrow> db \<Rightarrow> response list \<times> db" where
  "serve_all [] d = ([], d)"
| "serve_all ((now_check, now_create, path, req_body) # rs) d =
     (case rate_limit_check_api now_check now_create path req_body d of
        (resp, d') \<Rightarrow> (case serve_all rs d' of (resps, d'') \<Rightarrow> (resp # resps, d'')))"

section \<open>The bot (bot.py)\<close>

text \<open>
  bot.py passes its connection to the functions of database.py as an additional first
  argument, which these functions do not take. The handlers of /add_channel and
  /remove_channel are modelled with the call as database.py defines it, the database
  being the state that is passed along; \<^verbatim>\<open>post_or_update_messages\<close> further down is
  modelled with the calls as bot.py makes them.
\<close>

definition thumbs_up :: string where
  "thumbs_up = [CHR 0xF0, CHR 0x9F, CHR 0x91, CHR 0x8D]"

text \<open>
  The handlers of /add_channel and /remove_channel: the acknowledgement sent (none when
  the command has no channel id) and the database afterwards. An exception other than
  \<^verbatim>\<open>sqlite3.IntegrityError\<close> is not caught.
\<close>

definition add_channel :: "string option \<Rightarrow> db \<Rightarrow> error + (string option \<times> db)" where
  "add_channel command_channel_id d =
     (case command_channel_id of
        None \<Rightarrow> Inr (None, d)
      | Some sid \<Rightarrow>
          (case database_add_channel sid d of
             Inr d' \<Rightarrow> Inr (Some (''Added channel to slack events bot '' @ thumbs_up), d')
           | Inl IntegrityError \<Rightarrow>
               Inr (Some ''slack events bot has already been activated for this channel'', d)
           | Inl e \<Rightarrow> Inl e))"

definition remove_channel :: "bool \<Rightarrow> string option \<Rightarrow> db \<Rightarrow> error + (string option \<times> db)" where
  "remove_channel foreign_keys command_channel_id d =
     (case command_channel_id of
        None \<Rightarrow> Inr (None, d)
      | Some sid \<Rightarrow>
          (case database_remove_channel foreign_keys sid d of
             Inr d' \<Rightarrow> Inr (Some (''Removed channel from slack events bot '' @ thumbs_up), d')
           | Inl IntegrityError \<Rightarrow>
               Inr (Some ''slack events bot is not activated for this channel'', d)
           | Inl e \<Rightarrow> Inl e))"

text \<open>
  An event as \<^verbatim>\<open>Event.from_event_json\<close> delivers it. Class \<^verbatim>\<open>Event\<close> is not part of
  the sources, so its methods \<^verbatim>\<open>generate_blocks\<close> and \<^verbatim>\<open>generate_text\<close> are
  arguments of the functions that call them, and so is
  \<^verbatim>\<open>strftime('%B %-d')\<close>.
\<close>

record event =
  uuid :: string
  time :: datetime
  status :: string

datatype block = Header string | Divider | Section string

text \<open>
  \<^verbatim>\<open>date.weekday()\<close>: Monday is 0, and 1 January 1970 was a Thursday.
\<close>

definition weekday :: "datetime \<Rightarrow> int" where
  "weekday t = (t div 86400000000 + 3) mod 7"

definition week_start_of :: "datetime \<Rightarrow> datetime" where
  "week_start_of probe_date = probe_date - days ((weekday probe_date mod 7) + 1)"

text \<open>The loop of \<^verbatim>\<open>parse_events_for_week\<close> over the events of the response.\<close>

fun add_events ::
  "(event \<Rightarrow> block list) \<Rightarrow> (event \<Rightarrow> string) \<Rightarrow> datetime \<Rightarrow> datetime \<Rightarrow> event list \<Rightarrow>
     block list \<times> string \<Rightarrow> block list \<times> string" where
  "add_events generate_blocks generate_text week_start week_end [] acc = acc"
| "add_events generate_blocks generate_text week_start week_end (e # es) (blocks, text) =
     (if time e < week_start \<or> time e > week_end
      then add_events generate_blocks generate_text week_start week_end es (blocks, text)
      else if status e \<notin> set [''cancelled'', ''upcoming'', ''past'']
      then add_events generate_blocks generate_text week_start week_end es (blocks, text)
      else add_events generate_blocks generate_text week_start week_end es
             (blocks @ generate_blocks e @ [Divider],
              text @ generate_text e @ [CHR 0x0A, CHR 0x0A]))"

text \<open>
  The Slack client: \<^verbatim>\<open>chat_update\<close> and \<^verbatim>\<open>chat_postMessage\<close>. The platform is a
  function from the calls made so far and the call at hand to the \<^verbatim>\<open>ts\<close> of its
  response, or to nothing when the client raises \<^verbatim>\<open>SlackApiError\<close>.
\<close>

datatype slack_call =
  ChatUpdate string string "block list" string
| ChatPostMessage string "block list" string

type_synonym slack = "slack_call list \<Rightarrow> slack_call \<Rightarrow> string option"

text \<open>
  The dictionary \<^verbatim>\<open>message_details\<close> (a later message of the same channel replaces an
  earlier one) and the set \<^verbatim>\<open>posted_channels_set\<close>.
\<close>

definition message_details :: "message_dict list \<Rightarrow> (string \<rightharpoonup> string \<times> string)" where
  "message_details msgs =
     foldl (\<lambda>md m. md(d_slack_channel_id m \<mapsto> (d_message_timestamp m, d_message m)))
       Map.empty msgs"

definition posted_channels_set :: "message_dict list \<Rightarrow> string set" where
  "posted_channels_set msgs = set (map d_slack_channel_id msgs)"

text \<open>
  A call with positional arguments only, of a function none of whose parameters has a
  default: Python raises \<^verbatim>\<open>TypeError\<close> unless as many arguments are given as there
  are parameters. The third argument is what the call yields once its arguments are
  bound.
\<close>

definition positional_call :: "nat \<Rightarrow> nat \<Rightarrow> error + 'a \<Rightarrow> error + 'a" where
  "positional_call n_parameters n_arguments bound =
     (if n_arguments = n_parameters then bound else Inl TypeError)"

text \<open>
  \<^verbatim>\<open>create_message\<close> as bot.py calls it, with the five arguments
  \<^verbatim>\<open>conn, week, text, slack_response["ts"], slack_channel_id\<close> bound in this order to
  the parameters \<^verbatim>\<open>week, message, message_timestamp, slack_channel_id, sequence_position\<close>.
  So the channel that is looked up is the one whose identifier is the \<^verbatim>\<open>ts\<close>, and
  the row to insert has the connection as its week, which sqlite3 refuses to bind
  (\<^verbatim>\<open>sqlite3.ProgrammingError\<close>, \<^verbatim>\<open>sqlite3.InterfaceError\<close> before Python 3.11).
\<close>

definition create_message_conn_as_week :: "string \<Rightarrow> db \<Rightarrow> error + db" where
  "create_message_conn_as_week ts d =
     (case select_channel_id d ts of
        None \<Rightarrow> Inl TypeError
      | Some cid \<Rightarrow> Inl ProgrammingError)"

text \<open>
  The body of the loop of \<^verbatim>\<open>post_or_update_messages\<close> for one channel. The state is
  the database and the calls made to Slack so far. The first two branches of the source
  both look the channel up in \<^verbatim>\<open>message_details\<close>, which raises \<^verbatim>\<open>KeyError\<close>
  for a missing key. \<^verbatim>\<open>update_message\<close> has four parameters and is called with five
  arguments, \<^verbatim>\<open>create_message\<close> has five and is called with five.
\<close>

definition post_or_update_channel ::
  "slack \<Rightarrow> datetime \<Rightarrow> block list \<Rightarrow> string \<Rightarrow> (string \<rightharpoonup> string \<times> string) \<Rightarrow> string set \<Rightarrow>
     string \<Rightarrow> db \<times> slack_call list \<Rightarrow> error + db \<times> slack_call list" where
  "post_or_update_channel slack w blocks text details posted slack_channel_id st =
     (if slack_channel_id \<in> posted then
        (case details slack_channel_id of
           None \<Rightarrow> Inl KeyError
         | Some (ts, msg) \<Rightarrow>
             if text = msg then Inr st
             else (case slack (snd st) (ChatUpdate ts slack_channel_id blocks text) of
                     None \<Rightarrow> Inl SlackApiError
                   | Some _ \<Rightarrow>
                       (case positional_call 4 5
                               (update_message w text ts slack_channel_id (fst st)) of
                          Inl e \<Rightarrow> Inl e
                        | Inr d' \<Rightarrow>
                            Inr (d', snd st @ [ChatUpdate ts slack_channel_id blocks text]))))
      else (case slack (snd st) (ChatPostMessage slack_channel_id blocks text) of
              None \<Rightarrow> Inl SlackApiError
            | Some ts \<Rightarrow>
                (case positional_call 5 5 (create_message_conn_as_week ts (fst st)) of
                   Inl e \<Rightarrow> Inl e
                 | Inr d' \<Rightarrow> Inr (d', snd st @ [ChatPostMessage slack_channel_id blocks text]))))"

fun post_or_update_channels ::
  "slack \<Rightarrow> datetime \<Rightarrow> block list \<Rightarrow> string \<Rightarrow> (string \<rightharpoonup> string \<times> string) \<Rightarrow> string set \<Rightarrow>
     string list \<Rightarrow> db \<times> slack_call list \<Rightarrow> error + db \<times> slack_call list" where
  "post_or_update_channels slack w blocks text details posted [] st = Inr st"
| "post_or_update_channels slack w blocks text details posted (sid # sids) st =
     (case post_or_update_channel slack w blocks text details posted sid st of
        Inl e \<Rightarrow> Inl e
      | Inr st' \<Rightarrow> post_or_update_channels slack w blocks text details posted sids st')"

text \<open>
  \<^verbatim>\<open>post_or_update_messages\<close>. Its first two statements call
  \<^verbatim>\<open>database.get_slack_channel_ids(conn)\<close>, a function without parameters, and
  \<^verbatim>\<open>database.get_messages(conn, week)\<close>, a function with one.
\<close>

definition post_or_update_messages ::
  "slack \<Rightarrow> datetime \<Rightarrow> block list \<Rightarrow> string \<Rightarrow> db \<times> slack_call list \<Rightarrow>
     error + db \<times> slack_call list" where
  "post_or_update_messages slack w blocks text st =
     (case positional_call 0 1 (Inr (get_slack_channel_ids (fst st))) of
        Inl e \<Rightarrow> Inl e
      | Inr chans \<Rightarrow>
          (case positional_call 1 2 (Inr (get_messages (fst st) w)) of
             Inl e \<Rightarrow> Inl e
           | Inr msgs \<Rightarrow>
               post_or_update_channels slack w blocks text
                 (message_details msgs) (posted_channels_set msgs) chans st))"

definition week_heading :: "string \<Rightarrow> string" where
  "week_heading month_day = ''HackGreenville Events for the week of '' @ month_day"

definition parse_events_for_week ::
  "slack \<Rightarrow> (datetime \<Rightarrow> string) \<Rightarrow> (event \<Rightarrow> block list) \<Rightarrow> (event \<Rightarrow> string) \<Rightarrow>
     datetime \<Rightarrow> event list \<Rightarrow> db \<times> slack_call list \<Rightarrow> error + db \<times> slack_call list" where
  "parse_events_for_week slack strftime_B_d generate_blocks generate_text probe_date resp st =
     (let week_start = week_start_of probe_date;
          week_end = week_start + days 7;
          blocks = [Header (week_heading (strftime_B_d week_start)), Divider];
          text = week_heading (strftime_B_d week_start) @
                 [CHR 0x0A, CHR 0x0A] @ ''==='' @ [CHR 0x0A, CHR 0x0A]
      in case add_events generate_blocks generate_text week_start week_end resp (blocks, text) of
           (blocks', text') \<Rightarrow> post_or_update_messages slack week_start blocks' text' st)"

section \<open>The message builder (message_builder.py)\<close>

text \<open>
  message_builder.py is not among the sources; its tests are. Its sizing function
  \<^verbatim>\<open>total_messages_needed\<close> is modelled from section 4.2 of the spec. The spec gives no value for the character budget
  \<^verbatim>\<open>MAX_LEN\<close> (\<^verbatim>\<open>MAX_MESSAGE_CHARACTER_LENGTH\<close> in the tests), so it is the
  argument \<open>max_len\<close>.
\<close>

text \<open>Modelled from the spec: the decimal digits of \<open>seq\<close> and \<open>total\<close> in the header.\<close>

definition digit_char :: "nat \<Rightarrow> char" where
  "digit_char n = ''0123456789'' ! (n mod 10)"

fun string_of_nat :: "nat \<Rightarrow> string" where
  "string_of_nat n =
     (if n < 10 then [digit_char n] else string_of_nat (n div 10) @ [digit_char n])"

text \<open>
  Modelled from the spec: the header text
  \<^verbatim>\<open>"<Label> for the week of <Month Day> - <seq> of <total>"\<close>, whose label the tests
  give as \<^verbatim>\<open>HackGreenville Events\<close>.
\<close>

definition header_text :: "string \<Rightarrow> nat \<Rightarrow> nat \<Rightarrow> string" where
  "header_text month_day seq tot =
     week_heading month_day @ '' - '' @ string_of_nat seq @ '' of '' @ string_of_nat tot"

text \<open>
  Modelled from the spec: greedy accumulation on the lengths of the fragments. A fragment
  is added to the current chunk, of length \<open>cur\<close> and position \<open>seq\<close>, until adding
  the next fragment would exceed the budget; then a new chunk is started with its header.
  Since the text of a chunk must be strictly below \<^verbatim>\<open>MAX_LEN\<close>, a fragment is added
  when the sum stays strictly below \<open>max_len\<close>.
\<close>

fun chunk_lengths :: "nat \<Rightarrow> (nat \<Rightarrow> nat) \<Rightarrow> nat \<Rightarrow> nat \<Rightarrow> nat list \<Rightarrow> nat list" where
  "chunk_lengths max_len header_length seq cur [] = [cur]"
| "chunk_lengths max_len header_length seq cur (f # fs) =
     (if cur + f < max_len
      then chunk_lengths max_len header_length seq (cur + f) fs
      else cur # chunk_lengths max_len header_length (seq + 1) (header_length (seq + 1) + f) fs)"

text \<open>
  Modelled from the spec: the check of a candidate count, ``verify by actually chunking
  with headers at that candidate count''. Packing the fragments into \<open>count\<close> chunks
  overflows when the greedy chunking with the headers \<^verbatim>\<open>seq of count\<close> needs more than
  \<open>count\<close> chunks or leaves a chunk that is not below the budget.
\<close>

definition fits :: "nat \<Rightarrow> (nat \<Rightarrow> nat \<Rightarrow> nat) \<Rightarrow> nat list \<Rightarrow> nat \<Rightarrow> bool" where
  "fits max_len header_length frags count =
     (let chunks = chunk_lengths max_len (\<lambda>seq. header_length seq count) 1
                     (header_length 1 count) frags
      in length chunks \<le> count \<and> list_all (\<lambda>n. n < max_len) chunks)"

text \<open>
  Modelled from the spec: ``if any resulting chunk still exceeds MAX_LEN, increment count
  and retry''. The loop need not end, so it is a partial function: \<open>None\<close> is what it
  yields when it runs forever.
\<close>

partial_function (option) messages_needed_from ::
  "nat \<Rightarrow> (nat \<Rightarrow> nat \<Rightarrow> nat) \<Rightarrow> nat list \<Rightarrow> nat \<Rightarrow> nat option" where
  "messages_needed_from max_len header_length frags count =
     (if fits max_len header_length frags count then Some count
      else messages_needed_from max_len header_length frags (count + 1))"

declare messages_needed_from.simps [code]

text \<open>
  Modelled from the spec: \<^verbatim>\<open>total_messages_needed\<close>, which starts ``from the naive
  bin-packing count produced by greedy accumulation ignoring headers''. The tests pass it
  the fragments' lengths only; the length of the header of chunk \<open>seq\<close> of \<open>total\<close>
  is the argument \<open>header_length\<close>.
\<close>

definition total_messages_needed :: "nat \<Rightarrow> (nat \<Rightarrow> nat \<Rightarrow> nat) \<Rightarrow> nat list \<Rightarrow> nat option" where
  "total_messages_needed max_len header_length frags =
     messages_needed_from max_len header_length frags
       (length (chunk_lengths max_len (\<lambda>seq. 0) 1 0 frags))"

section \<open>A database and a Slack platform for the instances\<close>



section \<open>Properties of the rate limit of /check_api\<close>

lemma permitted_iff:
  assumes "check_api_being_requested path req_body"
      and "identify_slack_team_domain req_body = Some td"
  shows "(fst (rate_limit_check_api now_check now_create path req_body d) = CallNext) =
         (\<not> (\<exists>e. cooldowns d (td, ''check_api'') = Some e \<and> now_check \<le> e))"
  using assms
  by (auto simp: rate_limit_check_api_def check_api_on_cooldown_def
      get_cooldown_expiry_time_def split: option.splits)

lemma permitted_creates:
  assumes "check_api_being_requested path req_body"
      and "identify_slack_team_domain req_body = Some td"
      and "rate_limit_check_api now_check now_create path req_body d = (CallNext, d')"
  shows "cooldowns d' (td, ''check_api'') = Some (now_create + minutes 15)"
  using assms
  by (auto simp: rate_limit_check_api_def check_api_on_cooldown_def
      get_cooldown_expiry_time_def update_check_api_cooldown_def create_cooldown_def
      split: option.splits if_splits)

lemma rate_limit_keeps_cooldown:
  assumes "cooldowns d (td, ''check_api'') = Some e"
      and "check_api_being_requested path req_body \<and> identify_slack_team_domain req_body = Some td
             \<longrightarrow> now_check \<le> e"
  shows "cooldowns (snd (rate_limit_check_api now_check now_create path req_body d)) (td, ''check_api'') = Some e"
  using assms
  by (auto simp: rate_limit_check_api_def check_api_on_cooldown_def Let_def
      get_cooldown_expiry_time_def update_check_api_cooldown_def create_cooldown_def
      split: option.splits if_splits)

lemma throttled_while_unexpired:
  assumes "cooldowns d (td, ''check_api'') = Some e"
      and "check_api_being_requested path req_body"
      and "identify_slack_team_domain req_body = Some td"
      and "now_check \<le> e"
  shows "rate_limit_check_api now_check now_create path req_body d =
           (PlainTextResponse throttle_message, d)"
  using assms
  by (auto simp: rate_limit_check_api_def check_api_on_cooldown_def Let_def
      get_cooldown_expiry_time_def split: option.splits if_splits)


lemma serve_all_throttles:
  assumes "cooldowns d (td, ''check_api'') = Some e"
      and "\<forall>(now_check, now_create, path, req_body) \<in> set rs.
             check_api_being_requested path req_body \<and>
             identify_slack_team_domain req_body = Some td \<longrightarrow> now_check \<le> e"
      and "i < length rs"
      and "rs ! i = (now_check, now_create, path, req_body)"
      and "check_api_being_requested path req_body"
      and "identify_slack_team_domain req_body = Some td"
  shows "fst (serve_all rs d) ! i = PlainTextResponse throttle_message"
  using assms
proof (induction rs arbitrary: d i)
  case Nil
  then show ?case by simp
next
  case (Cons r rs)
  obtain n1 n2 p b where r: "r = (n1, n2, p, b)" by (cases r) auto
  obtain resp d' where step: "rate_limit_check_api n1 n2 p b d = (resp, d')"
    by (cases "rate_limit_check_api n1 n2 p b d") auto
  obtain resps d'' where rest: "serve_all rs d' = (resps, d'')"
    by (cases "serve_all rs d'") auto
  have bound: "check_api_being_requested p b \<and> identify_slack_team_domain b = Some td \<longrightarrow> n1 \<le> e"
    using Cons.prems(2) r by auto
  have keep: "cooldowns d' (td, ''check_api'') = Some e"
    using rate_limit_keeps_cooldown [OF Cons.prems(1) bound, of n2] step by simp
  show ?case
  proof (cases i)
    case 0
    then have "r = (now_check, now_create, path, req_body)" using Cons.prems(4) by simp
    then have "resp = PlainTextResponse throttle_message"
      using throttled_while_unexpired [OF Cons.prems(1) Cons.prems(5) Cons.prems(6), of now_check now_create]
        bound r step Cons.prems(5,6) by auto
    then show ?thesis using 0 r step rest by simp
  next
    case (Suc j)
    have "fst (serve_all rs d') ! j = PlainTextResponse throttle_message"
      using Cons.IH [OF keep, of j] Cons.prems Suc by auto
    then show ?thesis using Suc r step rest by simp
  qed
qed

text \<open>
  Claim C7. A /check_api request of a team domain \<open>td\<close> is handed on to the pipeline
  exactly when the cooldowns table holds no record for \<open>(td, check_api)\<close> that is still
  unexpired at the time of the check (a record is unexpired up to and including the
  instant \<open>expires_at\<close>). When it is handed on, the record afterwards expires 15 minutes
  after the clock reading of the upsert, and in every sequence of requests served from
  then on in which this team domain's /check_api requests come no later than that expiry,
  each of them is answered with the throttle message instead of being handed on.
\<close>

theorem check_api_cooldown_gate:
  assumes "check_api_being_requested path req_body"
      and "identify_slack_team_domain req_body = Some td"
  shows "((fst (rate_limit_check_api now_check now_create path req_body d) = CallNext) =
            (\<not> (\<exists>e. cooldowns d (td, ''check_api'') = Some e \<and> now_check \<le> e))) \<and>
         (\<forall>d'. rate_limit_check_api now_check now_create path req_body d = (CallNext, d') \<longrightarrow>
            cooldowns d' (td, ''check_api'') = Some (now_create + minutes 15) \<and>
            (\<forall>rs. (\<forall>(n1, n2, p, b) \<in> set rs.
                     check_api_being_requested p b \<and> identify_slack_team_domain b = Some td
                       \<longrightarrow> n1 \<le> now_create + minutes 15) \<longrightarrow>
                  (\<forall>i < length rs. \<forall>n1 n2 p b. rs ! i = (n1, n2, p, b) \<and>
                     check_api_being_requested p b \<and> identify_slack_team_domain b = Some td \<longrightarrow>
                     fst (serve_all rs d') ! i = PlainTextResponse throttle_message)))"
proof (intro conjI allI impI)
  show "(fst (rate_limit_check_api now_check now_create path req_body d) = CallNext) =
            (\<not> (\<exists>e. cooldowns d (td, ''check_api'') = Some e \<and> now_check \<le> e))"
    using permitted_iff [OF assms] .
next
  fix d'
  assume "rate_limit_check_api now_check now_create path req_body d = (CallNext, d')"
  then show "cooldowns d' (td, ''check_api'') = Some (now_create + minutes 15)"
    using permitted_creates [OF assms] by simp
next
  fix d' and rs :: "(datetime \<times> datetime \<times> string \<times> string) list" and i n1 n2 p b
  assume step: "rate_limit_check_api now_check now_create path req_body d = (CallNext, d')"
    and early: "\<forall>(n1, n2, p, b) \<in> set rs.
                     check_api_being_requested p b \<and> identify_slack_team_domain b = Some td
                       \<longrightarrow> n1 \<le> now_create + minutes 15"
    and i: "i < length rs"
    and r: "rs ! i = (n1, n2, p, b) \<and>
                     check_api_being_requested p b \<and> identify_slack_team_domain b = Some td"
  have "cooldowns d' (td, ''check_api'') = Some (now_create + minutes 15)"
    using permitted_creates [OF assms step] .
  then show "fst (serve_all rs d') ! i = PlainTextResponse throttle_message"
    using serve_all_throttles [OF _ early i] r by blast
qed

text \<open>An instance: an expired record, a permitted request, and a later one that is throttled.\<close>

theorem check_api_cooldown_gate_witness:
  "check_api_being_requested ''/slack/events'' ''command=%2Fcheck_api&team_domain=hackgvl&text='' \<and>
   identify_slack_team_domain ''command=%2Fcheck_api&team_domain=hackgvl&text='' = Some ''hackgvl'' \<and>
   fst (rate_limit_check_api 2000 2001 ''/slack/events'' ''command=%2Fcheck_api&team_domain=hackgvl&text=''
         \<lparr>channels = [], next_channel_id = 1, messages = [],
            cooldowns = [(''hackgvl'', ''check_api'') \<mapsto> 1999]\<rparr>) = CallNext \<and>
   cooldowns (snd (rate_limit_check_api 2000 2001 ''/slack/events'' ''command=%2Fcheck_api&team_domain=hackgvl&text=''
         \<lparr>channels = [], next_channel_id = 1, messages = [],
            cooldowns = [(''hackgvl'', ''check_api'') \<mapsto> 1999]\<rparr>)) (''hackgvl'', ''check_api'') = Some 900002001 \<and>
   fst (serve_all
          [(5000, 5001, ''/slack/events'', ''command=%2Fcheck_api&team_domain=other&text=''),
           (900002001, 900002002, ''/slack/events'', ''command=%2Fcheck_api&team_domain=hackgvl&text='')]
          (snd (rate_limit_check_api 2000 2001 ''/slack/events'' ''command=%2Fcheck_api&team_domain=hackgvl&text=''
         \<lparr>channels = [], next_channel_id = 1, messages = [],
            cooldowns = [(''hackgvl'', ''check_api'') \<mapsto> 1999]\<rparr>))) ! 1 = PlainTextResponse throttle_message"
proof -
  have a: "check_api_being_requested ''/slack/events'' ''command=%2Fcheck_api&team_domain=hackgvl&text=''"
    by (simp add: check_api_being_requested_def)
  have b: "identify_slack_team_domain ''command=%2Fcheck_api&team_domain=hackgvl&text='' = Some ''hackgvl''"
    by simp
  have c: "identify_slack_team_domain ''command=%2Fcheck_api&team_domain=other&text='' = Some ''other''"
    by simp
  show ?thesis
    using a b c check_api_cooldown_gate [OF a b, of 2000 2001
        "\<lparr>channels = [], next_channel_id = 1, messages = [],
            cooldowns = [(''hackgvl'', ''check_api'') \<mapsto> 1999]\<rparr>"]
    by (simp add: rate_limit_check_api_def check_api_on_cooldown_def get_cooldown_expiry_time_def
        update_check_api_cooldown_def create_cooldown_def minutes_def check_api_being_requested_def)
qed

text \<open>
  Claim C10. A /check_api request from whose body no team domain can be extracted is
  answered with the throttle message: it is not handed on to the pipeline and the store,
  the cooldowns table included, is left as it was.
\<close>

theorem rate_limit_no_team_domain:
  assumes "check_api_being_requested path req_body"
      and "identify_slack_team_domain req_body = None"
  shows "rate_limit_check_api now_check now_create path req_body d =
           (PlainTextResponse throttle_message, d)"
  using assms by (simp add: rate_limit_check_api_def check_api_on_cooldown_def)

text \<open>An instance: the team domain is the last parameter, so no \<^verbatim>\<open>&\<close> follows it.\<close>

theorem rate_limit_no_team_domain_witness:
  "check_api_being_requested ''/slack/events'' ''token=x&command=%2Fcheck_api&team_domain=hackgvl'' \<and>
   identify_slack_team_domain ''token=x&command=%2Fcheck_api&team_domain=hackgvl'' = None \<and>
   rate_limit_check_api 5 6 ''/slack/events'' ''token=x&command=%2Fcheck_api&team_domain=hackgvl''
      \<lparr>channels = [], next_channel_id = 1, messages = [], cooldowns = Map.empty\<rparr> =
           (PlainTextResponse throttle_message, \<lparr>channels = [], next_channel_id = 1, messages = [], cooldowns = Map.empty\<rparr>)"
proof -
  have a: "check_api_being_requested ''/slack/events'' ''token=x&command=%2Fcheck_api&team_domain=hackgvl''"
    by (simp add: check_api_being_requested_def)
  have b: "identify_slack_team_domain ''token=x&command=%2Fcheck_api&team_domain=hackgvl'' = None"
    by simp
  show ?thesis using a b rate_limit_no_team_domain [OF a b] by simp
qed


section \<open>Properties of the weekly message (bot.py)\<close>

text \<open>
  The loop of \<^verbatim>\<open>parse_events_for_week\<close> appends to the message exactly the events
  whose start time lies in the closed interval from \<open>week_start\<close> to \<open>week_end\<close> and
  whose status is one of the three supported ones, in the order of the response.
\<close>

lemma add_events_filter:
  "add_events gb gt ws we es (blocks, tx) =
     (blocks @ concat (map (\<lambda>e. gb e @ [Divider])
                 (filter (\<lambda>e. ws \<le> time e \<and> time e \<le> we \<and>
                               status e \<in> set [''cancelled'', ''upcoming'', ''past'']) es)),
      tx @ concat (map (\<lambda>e. gt e @ [CHR 0x0A, CHR 0x0A])
                 (filter (\<lambda>e. ws \<le> time e \<and> time e \<le> we \<and>
                               status e \<in> set [''cancelled'', ''upcoming'', ''past'']) es)))"
proof (induction es arbitrary: blocks tx)
  case Nil
  then show ?case by simp
next
  case (Cons e es)
  show ?case
  proof (cases "time e < ws \<or> time e > we")
    case True
    then show ?thesis using Cons.IH [of blocks tx] by auto
  next
    case out: False
    show ?thesis
    proof (cases "status e \<in> set [''cancelled'', ''upcoming'', ''past'']")
      case True
      then show ?thesis using out Cons.IH [of "blocks @ gb e @ [Divider]" "tx @ gt e @ [CHR 0x0A, CHR 0x0A]"]
        by auto
    next
      case False
      then show ?thesis using out Cons.IH [of blocks tx] by auto
    qed
  qed
qed

text \<open>
  Claim C1. The claim has the window half-open: an event that starts at \<open>week_end\<close>,
  which is \<open>week_start\<close> plus seven days and so the start of the following week, is to be
  left out. The loop tests \<^verbatim>\<open>event.time > week_end\<close> and keeps it: an upcoming event
  at that instant is appended to the blocks and to the text of the week's message.
\<close>

theorem add_events_keeps_event_at_week_end:
  "add_events gb gt ws (ws + days 7)
     [\<lparr>uuid = u, time = ws + days 7, status = ''upcoming''\<rparr>] (blocks, tx) =
   (blocks @ gb \<lparr>uuid = u, time = ws + days 7, status = ''upcoming''\<rparr> @ [Divider],
    tx @ gt \<lparr>uuid = u, time = ws + days 7, status = ''upcoming''\<rparr> @ [CHR 0x0A, CHR 0x0A])"
  by (simp add: days_def)

section \<open>Properties of the channel commands (bot.py)\<close>

text \<open>Subscribing a channel that is already subscribed is answered with the duplicate notice.\<close>

lemma add_channel_duplicate:
  assumes "sid \<in> set (get_slack_channel_ids d)"
  shows "add_channel (Some sid) d =
           Inr (Some ''slack events bot has already been activated for this channel'', d)"
  using assms by (simp add: add_channel_def database_add_channel_def get_slack_channel_ids_def)

text \<open>
  Unsubscribing never raises: whatever the channel, the handler acknowledges a removal.
\<close>

lemma remove_channel_never_reports:
  "remove_channel fk (Some sid) d =
     Inr (Some (''Removed channel from slack events bot '' @ thumbs_up),
          d\<lparr>channels := filter (\<lambda>c. snd c \<noteq> sid) (channels d),
            messages :=
              (if fk
               then filter (\<lambda>m. channel_id m \<notin> set (map fst (filter (\<lambda>c. snd c = sid) (channels d))))
                      (messages d)
               else messages d)\<rparr>)"
  by (simp add: remove_channel_def database_remove_channel_def)


section \<open>Properties of the retention sweep (database.py)\<close>

lemma sweep_messages:
  "messages (delete_old_messages cast_decimal now1 now2 days_back d) =
     filter (\<lambda>m. timestamp (now1 - days days_back) \<le> cast_decimal (message_timestamp m)) (messages d)"
  by (simp add: delete_old_messages_def not_less)

text \<open>
  Claim C9, amended. The sweep deletes every message whose timestamp is older than the
  horizon (the clock reading less \<open>days_back\<close> days, 90 by default), keeps every other
  message and adds none; it deletes every cooldown whose expiry is older than that same
  horizon, and keeps every other cooldown as it is.
\<close>

theorem delete_old_messages_horizon:
  "(\<forall>m \<in> set (messages d).
      (cast_decimal (message_timestamp m) < timestamp (now1 - days days_back) \<longrightarrow>
         m \<notin> set (messages (delete_old_messages cast_decimal now1 now2 days_back d))) \<and>
      (\<not> cast_decimal (message_timestamp m) < timestamp (now1 - days days_back) \<longrightarrow>
         m \<in> set (messages (delete_old_messages cast_decimal now1 now2 days_back d)))) \<and>
   set (messages (delete_old_messages cast_decimal now1 now2 days_back d)) \<subseteq> set (messages d) \<and>
   (\<forall>k e. cooldowns d k = Some e \<longrightarrow>
      (e < now2 - days days_back \<longrightarrow>
         cooldowns (delete_old_messages cast_decimal now1 now2 days_back d) k = None) \<and>
      (\<not> e < now2 - days days_back \<longrightarrow>
         cooldowns (delete_old_messages cast_decimal now1 now2 days_back d) k = Some e)) \<and>
   (\<forall>k. cooldowns d k = None \<longrightarrow>
      cooldowns (delete_old_messages cast_decimal now1 now2 days_back d) k = None)"
  by (auto simp: delete_old_messages_def)

text \<open>
  An instance with the default of 90 days: of two messages the one from July is deleted
  and the one from October is kept; of two cooldowns the one that expired in July is
  deleted and the one that expires in October is kept.
\<close>

theorem delete_old_messages_horizon_witness:
  "decimal_value ''1690000000.000200'' < timestamp (1698003600000000 - days 90) \<and>
   \<not> decimal_value ''1698000000.000100'' < timestamp (1698003600000000 - days 90) \<and>
   messages (delete_old_messages decimal_value 1698003600000000 1698003600000001 90
     \<lparr>channels = [(1, ''C0123456789'')], next_channel_id = 2,
       messages = [\<lparr>week = 1697932800000000, message_timestamp = ''1698000000.000100'',
                     message = ''new'', sequence_position = 0, channel_id = 1\<rparr>,
                   \<lparr>week = 1689465600000000, message_timestamp = ''1690000000.000200'',
                     message = ''old'', sequence_position = 0, channel_id = 1\<rparr>],
       cooldowns = [(''hackgvl'', ''check_api'') \<mapsto> 1698000900000000,
                    (''other'', ''check_api'') \<mapsto> 1690000000000000]\<rparr>) =
     [\<lparr>week = 1697932800000000, message_timestamp = ''1698000000.000100'',
        message = ''new'', sequence_position = 0, channel_id = 1\<rparr>] \<and>
   cooldowns (delete_old_messages decimal_value 1698003600000000 1698003600000001 90
     \<lparr>channels = [(1, ''C0123456789'')], next_channel_id = 2,
       messages = [\<lparr>week = 1697932800000000, message_timestamp = ''1698000000.000100'',
                     message = ''new'', sequence_position = 0, channel_id = 1\<rparr>,
                   \<lparr>week = 1689465600000000, message_timestamp = ''1690000000.000200'',
                     message = ''old'', sequence_position = 0, channel_id = 1\<rparr>],
       cooldowns = [(''hackgvl'', ''check_api'') \<mapsto> 1698000900000000,
                    (''other'', ''check_api'') \<mapsto> 1690000000000000]\<rparr>)
     (''other'', ''check_api'') = None \<and>
   cooldowns (delete_old_messages decimal_value 1698003600000000 1698003600000001 90
     \<lparr>channels = [(1, ''C0123456789'')], next_channel_id = 2,
       messages = [\<lparr>week = 1697932800000000, message_timestamp = ''1698000000.000100'',
                     message = ''new'', sequence_position = 0, channel_id = 1\<rparr>,
                   \<lparr>week = 1689465600000000, message_timestamp = ''1690000000.000200'',
                     message = ''old'', sequence_position = 0, channel_id = 1\<rparr>],
       cooldowns = [(''hackgvl'', ''check_api'') \<mapsto> 1698000900000000,
                    (''other'', ''check_api'') \<mapsto> 1690000000000000]\<rparr>)
     (''hackgvl'', ''check_api'') = Some 1698000900000000"
  using delete_old_messages_horizon [of
     "\<lparr>channels = [(1, ''C0123456789'')], next_channel_id = 2,
       messages = [\<lparr>week = 1697932800000000, message_timestamp = ''1698000000.000100'',
                     message = ''new'', sequence_position = 0, channel_id = 1\<rparr>,
                   \<lparr>week = 1689465600000000, message_timestamp = ''1690000000.000200'',
                     message = ''old'', sequence_position = 0, channel_id = 1\<rparr>],
       cooldowns = [(''hackgvl'', ''check_api'') \<mapsto> 1698000900000000,
                    (''other'', ''check_api'') \<mapsto> 1690000000000000]\<rparr>"
     decimal_value 1698003600000000 90 1698003600000001]
  by (simp add: delete_old_messages_def days_def timestamp_def decimal_value_def nat_of_digits_def)

text \<open>
  The claim as it stands fails: a cooldown that expired 45 minutes before the sweep is in
  the past, and the sweep keeps it.
\<close>

theorem delete_old_messages_keeps_expired_cooldown:
  "cooldowns (delete_old_messages decimal_value 1698003600000000 1698003600000001 90
               \<lparr>channels = [], next_channel_id = 1, messages = [],
                 cooldowns = [(''hackgvl'', ''check_api'') \<mapsto> 1698000900000000]\<rparr>)
              (''hackgvl'', ''check_api'') = Some 1698000900000000 \<and>
   (1698000900000000 :: int) < 1698003600000001"
  by (simp add: delete_old_messages_def days_def)

section \<open>Properties of the publish reconciliation (bot.py)\<close>

text \<open>
  Claim C5. For every subscribed channel and every week the reconciliation is to post,
  to update or to leave the channel's message alone. \<^verbatim>\<open>post_or_update_messages\<close>
  does none of the three: whatever the platform, the week, the blocks, the text and the
  state, its first statement passes the connection to \<^verbatim>\<open>get_slack_channel_ids\<close>,
  which takes no argument, and the call raises \<^verbatim>\<open>TypeError\<close> before a channel is
  looked at.
\<close>

theorem post_or_update_messages_raises:
  "post_or_update_messages slack w blocks tx st = Inl TypeError"
  by (simp add: post_or_update_messages_def positional_call_def)


section \<open>Properties of the message builder\<close>

text \<open>The count that the sizing loop returns passes the check, and is not below its start.\<close>

lemma messages_needed_from_fits:
  assumes "messages_needed_from max_len header_length frags count = Some n"
  shows "fits max_len header_length frags n \<and> count \<le> n"
proof (rule messages_needed_from.raw_induct
         [where P = "\<lambda>m h fs c y. fits m h fs y \<and> c \<le> y", OF _ assms])
  fix f m h fs c y
  assume ih: "\<And>m h fs c y. f m h fs c = Some y \<Longrightarrow> fits m h fs y \<and> c \<le> y"
    and eq: "(if fits m h fs c then Some c else f m h fs (c + 1)) = Some y"
  show "fits m h fs y \<and> c \<le> y"
  proof (cases "fits m h fs c")
    case True
    then show ?thesis using eq by simp
  next
    case False
    then have "f m h fs (c + 1) = Some y" using eq by simp
    then show ?thesis using ih [of m h fs "c + 1" y] by simp
  qed
qed

text \<open>
  The sizing loop ends when every fragment fits into a chunk of its own next to any of
  the headers of as many chunks as there are fragments: it then ends at a count of at
  most the number of fragments.
\<close>

lemma chunk_lengths_nonempty: "chunk_lengths max_len hl seq cur fs \<noteq> []"
  by (induction fs arbitrary: seq cur) auto

lemma chunk_lengths_single:
  "length (chunk_lengths max_len hl seq cur fs) \<le> 1 \<Longrightarrow> fs \<noteq> [] \<Longrightarrow> cur + sum_list fs < max_len"
proof (induction fs arbitrary: cur)
  case Nil
  then show ?case by simp
next
  case (Cons f fs)
  show ?case
  proof (cases "cur + f < max_len")
    case True
    then have len: "length (chunk_lengths max_len hl seq (cur + f) fs) \<le> 1"
      using Cons.prems(1) by simp
    show ?thesis
    proof (cases "fs = []")
      case True
      then show ?thesis using \<open>cur + f < max_len\<close> by simp
    next
      case False
      then show ?thesis using Cons.IH [OF len] by (simp add: add.assoc)
    qed
  next
    case False
    then have "length (chunk_lengths max_len hl seq cur (f # fs)) =
                 Suc (length (chunk_lengths max_len hl (seq + 1) (hl (seq + 1) + f) fs))"
      by simp
    moreover have "length (chunk_lengths max_len hl (seq + 1) (hl (seq + 1) + f) fs) \<noteq> 0"
      using chunk_lengths_nonempty by simp
    ultimately show ?thesis using Cons.prems(1) by simp
  qed
qed

lemma chunk_lengths_all_fit:
  assumes "cur < max_len"
      and "\<And>f s. f \<in> set fs \<Longrightarrow> seq < s \<Longrightarrow> s \<le> seq + length fs \<Longrightarrow> hl s + f < max_len"
  shows "list_all (\<lambda>n. n < max_len) (chunk_lengths max_len hl seq cur fs) \<and>
         length (chunk_lengths max_len hl seq cur fs) \<le> Suc (length fs)"
  using assms
proof (induction fs arbitrary: seq cur)
  case Nil
  then show ?case by simp
next
  case (Cons f fs)
  show ?case
  proof (cases "cur + f < max_len")
    case True
    have "list_all (\<lambda>n. n < max_len) (chunk_lengths max_len hl seq (cur + f) fs) \<and>
          length (chunk_lengths max_len hl seq (cur + f) fs) \<le> Suc (length fs)"
      using Cons.prems(2) by (intro Cons.IH [OF True]) auto
    then show ?thesis using True by simp
  next
    case False
    have new: "hl (seq + 1) + f < max_len"
      using Cons.prems(2) [of f "seq + 1"] by simp
    have "list_all (\<lambda>n. n < max_len) (chunk_lengths max_len hl (seq + 1) (hl (seq + 1) + f) fs) \<and>
          length (chunk_lengths max_len hl (seq + 1) (hl (seq + 1) + f) fs) \<le> Suc (length fs)"
      using Cons.prems(2) by (intro Cons.IH [OF new]) auto
    then show ?thesis using False Cons.prems(1) by simp
  qed
qed

lemma fits_when_all_fit:
  assumes "hl 1 (max 1 (length fs)) < max_len"
      and "\<And>f s. f \<in> set fs \<Longrightarrow> 1 \<le> s \<Longrightarrow> s \<le> max 1 (length fs) \<Longrightarrow>
             hl s (max 1 (length fs)) + f < max_len"
  shows "fits max_len hl fs (max 1 (length fs))"
proof (cases fs)
  case Nil
  then show ?thesis using assms(1) by (simp add: fits_def)
next
  case (Cons f fs')
  let ?n = "max 1 (length fs)"
  have n: "?n = Suc (length fs')" using Cons by simp
  have first: "hl 1 ?n + f < max_len" using assms(2) [of f 1] Cons by simp
  have "list_all (\<lambda>k. k < max_len) (chunk_lengths max_len (\<lambda>s. hl s ?n) 1 (hl 1 ?n + f) fs') \<and>
        length (chunk_lengths max_len (\<lambda>s. hl s ?n) 1 (hl 1 ?n + f) fs') \<le> Suc (length fs')"
    using assms(2) Cons n by (intro chunk_lengths_all_fit [OF first]) auto
  then show ?thesis using first Cons n by (simp add: fits_def Let_def)
qed

lemma naive_count_bound:
  assumes "\<And>f. f \<in> set fs \<Longrightarrow> f < max_len"
  shows "length (chunk_lengths max_len (\<lambda>seq. 0) 1 0 fs) \<le> max 1 (length fs)"
proof (cases fs)
  case Nil
  then show ?thesis by simp
next
  case (Cons f fs')
  have first: "0 + f < max_len" using assms Cons by simp
  have "length (chunk_lengths max_len (\<lambda>seq. 0) 1 (0 + f) fs') \<le> Suc (length fs')"
    using assms Cons chunk_lengths_all_fit [OF first, of fs' 1 "\<lambda>seq. 0"] by auto
  then show ?thesis using first Cons by simp
qed

lemma messages_needed_from_returns:
  assumes "fits max_len hl fs n" and "count \<le> n"
  shows "\<exists>k. count \<le> k \<and> k \<le> n \<and> messages_needed_from max_len hl fs count = Some k"
  using assms(2)
proof (induction "n - count" arbitrary: count)
  case 0
  then have "count = n" by simp
  then have "messages_needed_from max_len hl fs count = Some n"
    using assms(1) by (subst messages_needed_from.simps) simp
  then show ?case using \<open>count = n\<close> by auto
next
  case (Suc d)
  show ?case
  proof (cases "fits max_len hl fs count")
    case True
    then have "messages_needed_from max_len hl fs count = Some count"
      by (subst messages_needed_from.simps) simp
    then show ?thesis using Suc.prems by auto
  next
    case False
    have "d = n - (count + 1)" and "count + 1 \<le> n" using Suc.hyps(2) by auto
    then obtain k where k: "count + 1 \<le> k" "k \<le> n"
        "messages_needed_from max_len hl fs (count + 1) = Some k"
      using Suc.hyps(1) [of "count + 1"] by blast
    have "messages_needed_from max_len hl fs count = messages_needed_from max_len hl fs (count + 1)"
      using False by (subst messages_needed_from.simps) simp
    then show ?thesis using k by auto
  qed
qed

lemma total_messages_needed_returns:
  assumes "hl 1 (max 1 (length fs)) < max_len"
      and "\<And>f s. f \<in> set fs \<Longrightarrow> 1 \<le> s \<Longrightarrow> s \<le> max 1 (length fs) \<Longrightarrow>
             hl s (max 1 (length fs)) + f < max_len"
  shows "\<exists>k. 1 \<le> k \<and> k \<le> max 1 (length fs) \<and> total_messages_needed max_len hl fs = Some k"
proof -
  have small: "\<And>f. f \<in> set fs \<Longrightarrow> f < max_len"
    using assms(2) [of _ 1] by fastforce
  have lower: "1 \<le> length (chunk_lengths max_len (\<lambda>seq. 0) 1 0 fs)"
    using chunk_lengths_nonempty [of max_len "\<lambda>seq. 0" 1 0 fs]
    by (cases "chunk_lengths max_len (\<lambda>seq. 0) 1 0 fs") auto
  obtain k where "length (chunk_lengths max_len (\<lambda>seq. 0) 1 0 fs) \<le> k" "k \<le> max 1 (length fs)"
      "messages_needed_from max_len hl fs (length (chunk_lengths max_len (\<lambda>seq. 0) 1 0 fs)) = Some k"
  proof -
    have f: "fits max_len hl fs (max 1 (length fs))"
      using assms by (rule fits_when_all_fit)
    have b: "length (chunk_lengths max_len (\<lambda>seq. 0) 1 0 fs) \<le> max 1 (length fs)"
      using small by (rule naive_count_bound)
    show ?thesis using messages_needed_from_returns [OF f b] that by blast
  qed
  then show ?thesis using lower unfolding total_messages_needed_def by auto
qed

text \<open>
  Claim C3. For the fragment lengths 463, 311, 397, 507, 456, 463, 352, which sum to
  2949, \<^verbatim>\<open>total_messages_needed\<close> returns 2 for every budget and every header in the
  borderline regime of the test: the fragments alone fit into one chunk, with the header
  \<^verbatim>\<open>1 of 1\<close> they do not, and with the headers \<^verbatim>\<open>1 of 2\<close> and \<^verbatim>\<open>2 of 2\<close> the first
  six, and the last one, fit into a chunk each.
\<close>

theorem total_messages_needed_borderline:
  assumes "2949 < max_len"
      and "max_len \<le> header_length 1 1 + 2949"
      and "header_length 1 2 + 2597 < max_len"
      and "header_length 2 2 + 352 < max_len"
  shows "total_messages_needed max_len header_length [463, 311, 397, 507, 456, 463, 352] = Some 2"
proof -
  let ?F = "[463, 311, 397, 507, 456, 463, 352] :: nat list"
  have naive: "length (chunk_lengths max_len (\<lambda>seq. 0) 1 0 ?F) = 1"
    using assms(1) by simp
  have "\<not> length (chunk_lengths max_len (\<lambda>seq. header_length seq 1) 1 (header_length 1 1) ?F) \<le> 1"
    using chunk_lengths_single [of max_len "\<lambda>seq. header_length seq 1" 1 "header_length 1 1" ?F]
      assms(2) by auto
  then have one: "\<not> fits max_len header_length ?F 1"
    by (simp add: fits_def Let_def)
  have "fits max_len header_length ?F 2"
    using assms(3,4) by (simp add: fits_def Let_def numeral_2_eq_2 [symmetric])
  then have two: "fits max_len header_length ?F (1 + 1)"
    by (simp only: nat_1_add_1)
  have "messages_needed_from max_len header_length ?F 1 =
          messages_needed_from max_len header_length ?F (1 + 1)"
    by (subst messages_needed_from.simps) (simp only: one if_False)
  also have "\<dots> = Some (1 + 1)"
    by (subst messages_needed_from.simps) (simp only: two if_True)
  finally show ?thesis
    unfolding total_messages_needed_def naive by (simp only: nat_1_add_1)
qed

text \<open>An instance: a budget of 3000 characters and the headers of the week of October 22.\<close>

theorem total_messages_needed_borderline_witness:
  "(2949 :: nat) < 3000 \<and>
   3000 \<le> length (header_text ''October 22'' 1 1) + 2949 \<and>
   length (header_text ''October 22'' 1 2) + 2597 < 3000 \<and>
   length (header_text ''October 22'' 2 2) + 352 < 3000 \<and>
   total_messages_needed 3000 (\<lambda>seq tot. length (header_text ''October 22'' seq tot))
     [463, 311, 397, 507, 456, 463, 352] = Some 2"
proof -
  have a: "(2949 :: nat) < 3000" by simp
  have b: "3000 \<le> length (header_text ''October 22'' 1 1) + 2949"
    by (simp add: header_text_def week_heading_def)
  have c: "length (header_text ''October 22'' 1 2) + 2597 < 3000"
    by (simp add: header_text_def week_heading_def)
  have d: "length (header_text ''October 22'' 2 2) + 352 < 3000"
    by (simp add: header_text_def week_heading_def)
  show ?thesis
    using a b c d
      total_messages_needed_borderline
        [of 3000 "\<lambda>seq tot. length (header_text ''October 22'' seq tot)", OF a b c d]
    by simp
qed

text \<open>
  Claim C4. For no fragments at all, \<^verbatim>\<open>total_messages_needed\<close> returns 1, the header
  \<^verbatim>\<open>1 of 1\<close> of the placeholder chunk being shorter than the budget.
\<close>

theorem total_messages_needed_empty:
  assumes "header_length 1 1 < max_len"
  shows "total_messages_needed max_len header_length [] = Some 1"
proof -
  have "fits max_len header_length [] 1"
    using assms by (simp add: fits_def)
  then have "messages_needed_from max_len header_length [] 1 = Some 1"
    by (subst messages_needed_from.simps) (simp only: if_True)
  then show ?thesis by (simp add: total_messages_needed_def)
qed

text \<open>An instance: a budget of 3000 characters and the header of the week of October 22.\<close>

theorem total_messages_needed_empty_witness:
  "length (header_text ''October 22'' 1 1) < 3000 \<and>
   total_messages_needed 3000 (\<lambda>seq tot. length (header_text ''October 22'' seq tot)) [] = Some 1"
proof -
  have a: "length (header_text ''October 22'' 1 1) < 3000"
    by (simp add: header_text_def week_heading_def)
  show ?thesis
    using a total_messages_needed_empty
        [of "\<lambda>seq tot. length (header_text ''October 22'' seq tot)" 3000, OF a]
    by simp
qed


end
